theory Spec2Isabelle
  imports Main
begin

section \<open>Responses and the error taxonomy\<close>

text \<open>
  Every handler answers with \<^verbatim>\<open>res.status(n).json(...)\<close>. A failing answer carries
  either \<^verbatim>\<open>{ error: msg }\<close> or, from express-validator,
  \<^verbatim>\<open>{ errors: errors.array() }\<close>; an entry of that array is kept as the pair of
  its field path and its message.
\<close>

datatype body = Error string | Errors "(string \<times> string) list"

datatype failure = Failure nat body

datatype error_kind = ValidationError | InvalidTransition | Forbidden | NotFound | InternalFailure

text \<open>
  The kinds of failure that a client can tell apart. Status 403 is Forbidden, 404 is
  NotFound, and 500, sent by the \<^verbatim>\<open>catch\<close> of a handler, is an internal failure. The
  routes answer a violated precondition of the state machine and a violated validation
  rule with the same status 400; the two messages below are the ones sent when the
  request is not pending, and they make the failure an InvalidTransition.
\<close>

definition not_pending_messages :: "string list" where
  "not_pending_messages =
     [''Leave request is not pending'', ''Only pending leave requests can be cancelled'']"

fun kind_of :: "failure \<Rightarrow> error_kind" where
  "kind_of (Failure c (Errors es)) =
     (if c = 400 then ValidationError else if c = 403 then Forbidden
      else if c = 404 then NotFound else InternalFailure)"
| "kind_of (Failure c (Error m)) =
     (if c = 400 then (if List.member not_pending_messages m then InvalidTransition
                       else ValidationError)
      else if c = 403 then Forbidden
      else if c = 404 then NotFound else InternalFailure)"

section \<open>Documents\<close>

datatype role = Student | Caretaker | Warden | Admin

datatype status = Pending | Approved | Rejected

record emergency_contact =
  ec_name :: string
  ec_relationship :: string
  ec_phone :: string

record contact_details =
  cd_address :: string
  cd_phone :: string
  cd_emergencyContact :: emergency_contact

text \<open>
  A LeaveRequest document. Dates are milliseconds since the epoch. The fields
  \<^verbatim>\<open>attachments\<close>, \<^verbatim>\<open>createdAt\<close> and \<^verbatim>\<open>updatedAt\<close> are left out: no route
  writes the first, and the other two are maintained by the driver.
\<close>

record leave_request =
  lr_id :: nat
  student :: nat
  fromDate :: int
  toDate :: int
  reason :: string
  leaveType :: string
  status :: status
  remarks :: "string option"
  approvedBy :: "nat option"
  approvedAt :: "int option"
  contactDetails :: contact_details
  isUrgent :: bool
  urgentReason :: "string option"

record user_emergency =
  ue_name :: "string option"
  ue_relationship :: "string option"
  ue_phone :: "string option"

record user =
  u_id :: nat
  name :: string
  email :: string
  role :: role
  studentId :: "string option"
  department :: "string option"
  year :: "int option"
  hostel :: "string option"
  roomNumber :: "string option"
  contactNumber :: "string option"
  emergencyContact :: "user_emergency option"
  googleId :: "string option"
  profilePicture :: string
  isActive :: bool
  lastLogin :: int

text \<open>\<^verbatim>\<open>userSchema.methods.canApproveLeaves\<close>\<close>

definition canApproveLeaves :: "user \<Rightarrow> bool" where
  "canApproveLeaves u = List.member [Caretaker, Warden, Admin] (role u)"

section \<open>The LeaveRequest collection\<close>

type_synonym store = "leave_request list"

fun findById :: "store \<Rightarrow> nat \<Rightarrow> leave_request option" where
  "findById [] i = None"
| "findById (d # ds) i = (if lr_id d = i then Some d else findById ds i)"

fun findByIdAndDelete :: "nat \<Rightarrow> store \<Rightarrow> store" where
  "findByIdAndDelete i [] = []"
| "findByIdAndDelete i (d # ds) = (if lr_id d = i then ds else d # findByIdAndDelete i ds)"

section \<open>Middleware\<close>

text \<open>
  \<^verbatim>\<open>requireRole(roles)\<close> after \<^verbatim>\<open>authenticateToken\<close>: the actor is the user document
  that authentication put into \<^verbatim>\<open>req.user\<close>.
\<close>

definition requireRole :: "role list \<Rightarrow> user \<Rightarrow> failure option" where
  "requireRole roles u =
     (if \<not> List.member roles (role u)
      then Some (Failure 403 (Error ''Access denied. Insufficient permissions.''))
      else None)"

definition requireStudent :: "user \<Rightarrow> failure option" where
  "requireStudent = requireRole [Student]"

definition canApproveLeave :: "user \<Rightarrow> failure option" where
  "canApproveLeave u =
     (if \<not> canApproveLeaves u
      then Some (Failure 403 (Error ''Access denied. You cannot approve leave requests.''))
      else None)"

section \<open>GET /:id and DELETE /:id\<close>

text \<open>
  Both handlers declare \<^verbatim>\<open>param('id').isMongoId()\<close> but never read
  \<^verbatim>\<open>validationResult\<close>, so the validator decides nothing. The id ranges over
  well-formed ObjectIds, identified with natural numbers.
  No route deletes a user, so \<^verbatim>\<open>populate('student')\<close> always resolves and
  \<^verbatim>\<open>leaveRequest.student._id\<close> is the stored reference.
\<close>

definition view_handler :: "user \<Rightarrow> nat \<Rightarrow> store \<Rightarrow> failure + leave_request" where
  "view_handler actor i st =
     (case findById st i of
        None \<Rightarrow> Inl (Failure 404 (Error ''Leave request not found''))
      | Some r \<Rightarrow>
          if role actor \<noteq> Admin \<and> \<not> canApproveLeaves actor \<and> student r \<noteq> u_id actor
          then Inl (Failure 403 (Error ''Access denied''))
          else Inr r)"

definition cancel_handler :: "user \<Rightarrow> nat \<Rightarrow> store \<Rightarrow> (failure + string) \<times> store" where
  "cancel_handler actor i st =
     (case requireStudent actor of
        Some f \<Rightarrow> (Inl f, st)
      | None \<Rightarrow>
         (case findById st i of
            None \<Rightarrow> (Inl (Failure 404 (Error ''Leave request not found'')), st)
          | Some r \<Rightarrow>
              if student r \<noteq> u_id actor
              then (Inl (Failure 403 (Error ''You can only cancel your own leave requests'')), st)
              else if status r \<noteq> Pending
              then (Inl (Failure 400 (Error ''Only pending leave requests can be cancelled'')), st)
              else (Inr ''Leave request cancelled successfully'', findByIdAndDelete i st)))"

section \<open>String checks of the route validators\<close>

text \<open>
  A string is the list of its code units, each below 256. \<^verbatim>\<open>trim()\<close> strips the
  characters of the regular expression class \<^verbatim>\<open>\s\<close> from both ends; below 256 these
  are the codes 9 to 13, the space and the no-break space. \<^verbatim>\<open>isLength\<close> bounds the
  length, and \<^verbatim>\<open>matches(/^[0-9]{10}$/)\<close> accepts exactly ten decimal digits.
\<close>

definition is_space :: "char \<Rightarrow> bool" where
  "is_space c =
     List.member [CHR '' '', CHR 0x09, CHR 0x0A, CHR 0x0B, CHR 0x0C, CHR 0x0D, CHR 0xA0] c"

definition trim :: "string \<Rightarrow> string" where
  "trim s = rev (dropWhile is_space (rev (dropWhile is_space s)))"

definition isLength :: "nat \<Rightarrow> nat \<Rightarrow> string \<Rightarrow> bool" where
  "isLength lo hi s = (lo \<le> length s \<and> length s \<le> hi)"

definition is_digit :: "char \<Rightarrow> bool" where
  "is_digit c = List.member ''0123456789'' c"

definition matches_phone :: "string \<Rightarrow> bool" where
  "matches_phone s = (length s = 10 \<and> list_all is_digit s)"


text \<open>One validator of a chain: no entry when it holds, else its field path and message.\<close>

definition check :: "bool \<Rightarrow> string \<Rightarrow> string \<Rightarrow> (string \<times> string) list" where
  "check ok path msg = (if ok then [] else [(path, msg)])"

section \<open>POST /apply\<close>

text \<open>
  The value of \<^verbatim>\<open>isUrgent\<close> in the JSON body: a boolean, a string or a whole number.
  \<^verbatim>\<open>isBoolean()\<close> is applied to the value turned into a string and accepts
  \<^verbatim>\<open>true\<close>, \<^verbatim>\<open>false\<close>, \<^verbatim>\<open>1\<close> and \<^verbatim>\<open>0\<close>. \<open>truthy\<close> is the truth value that
  \<^verbatim>\<open>isUrgent || false\<close> and \<^verbatim>\<open>isUrgent ? ... : ...\<close> test, and \<open>castBoolean\<close> the value
  the schema's Boolean path stores; the values that this cast refuses do not pass
  \<^verbatim>\<open>isBoolean()\<close>.
\<close>

datatype json = JBool bool | JString string | JNumber int

fun isBoolean :: "json \<Rightarrow> bool" where
  "isBoolean (JBool b) = True"
| "isBoolean (JString s) = List.member [''true'', ''false'', ''1'', ''0''] s"
| "isBoolean (JNumber n) = (n = 1 \<or> n = 0)"

fun truthy :: "json \<Rightarrow> bool" where
  "truthy (JBool b) = b"
| "truthy (JString s) = (s \<noteq> [])"
| "truthy (JNumber n) = (n \<noteq> 0)"

fun castBoolean :: "json \<Rightarrow> bool" where
  "castBoolean (JBool b) = b"
| "castBoolean (JString s) = List.member [''true'', ''1'', ''yes''] s"
| "castBoolean (JNumber n) = (n = 1)"

text \<open>
  The request body. A field that is absent is validated by express-validator as the
  empty string, so an absent string field is the empty string here. A date field is
  \<open>None\<close> when the string fails \<^verbatim>\<open>isISO8601\<close>, and otherwise \<open>Some t\<close> with \<open>t\<close> the
  time value of \<^verbatim>\<open>new Date(...)\<close> of it.
\<close>

record draft =
  d_fromDate :: "int option"
  d_toDate :: "int option"
  d_reason :: string
  d_type :: string
  d_contactDetails :: contact_details
  d_isUrgent :: "json option"
  d_urgentReason :: "string option"

definition apply_validators :: "draft \<Rightarrow> (string \<times> string) list" where
  "apply_validators d =
     check (d_fromDate d \<noteq> None) ''fromDate'' ''Valid from date is required''
   @ check (d_toDate d \<noteq> None) ''toDate'' ''Valid to date is required''
   @ check (isLength 10 500 (trim (d_reason d))) ''reason''
       ''Reason must be between 10 and 500 characters''
   @ check (List.member [''day'', ''home''] (d_type d)) ''type'' ''Valid leave type is required''
   @ check (isLength 10 300 (trim (cd_address (d_contactDetails d)))) ''contactDetails.address''
       ''Address must be between 10 and 300 characters''
   @ check (matches_phone (cd_phone (d_contactDetails d))) ''contactDetails.phone''
       ''Valid phone number is required''
   @ check (isLength 2 100 (trim (ec_name (cd_emergencyContact (d_contactDetails d)))))
       ''contactDetails.emergencyContact.name'' ''Emergency contact name is required''
   @ check (isLength 2 50 (trim (ec_relationship (cd_emergencyContact (d_contactDetails d)))))
       ''contactDetails.emergencyContact.relationship''
       ''Emergency contact relationship is required''
   @ check (matches_phone (ec_phone (cd_emergencyContact (d_contactDetails d))))
       ''contactDetails.emergencyContact.phone'' ''Valid emergency contact phone is required''
   @ check (case d_isUrgent d of None \<Rightarrow> True | Some v \<Rightarrow> isBoolean v)
       ''isUrgent'' ''Invalid value''
   @ check (case d_urgentReason d of None \<Rightarrow> True | Some s \<Rightarrow> isLength 0 200 (trim s))
       ''urgentReason'' ''Invalid value''"

text \<open>The \<^verbatim>\<open>LeaveRequest.find\<close> query of the handler.\<close>

definition overlappingLeaves :: "store \<Rightarrow> nat \<Rightarrow> int \<Rightarrow> int \<Rightarrow> leave_request list" where
  "overlappingLeaves st sid fromDateObj toDateObj =
     filter (\<lambda>r. student r = sid
                \<and> (status r = Pending \<or> status r = Approved)
                \<and> fromDate r \<le> toDateObj \<and> toDate r \<ge> fromDateObj) st"

text \<open>
  The two \<^verbatim>\<open>pre('save')\<close> hooks of the LeaveRequest schema; \<open>hookNow\<close> is the
  \<^verbatim>\<open>new Date()\<close> read inside the hook. Both dates are required fields, so the guard
  \<^verbatim>\<open>this.fromDate && this.toDate\<close> holds.
\<close>

definition pre_save_dates :: "leave_request \<Rightarrow> int \<Rightarrow> string option" where
  "pre_save_dates r hookNow =
     (if fromDate r < hookNow then Some ''From date cannot be in the past''
      else if toDate r < fromDate r then Some ''To date must be after or equal to from date''
      else None)"

definition pre_save_urgent :: "leave_request \<Rightarrow> string option" where
  "pre_save_urgent r =
     (if isUrgent r \<and> (urgentReason r = None \<or> urgentReason r = Some [])
      then Some ''Urgent reason is required when marking as urgent''
      else None)"

definition pre_save :: "leave_request \<Rightarrow> int \<Rightarrow> string option" where
  "pre_save r hookNow =
     (case pre_save_dates r hookNow of Some e \<Rightarrow> Some e | None \<Rightarrow> pre_save_urgent r)"

text \<open>
  \<^verbatim>\<open>save()\<close> of a new document and of a loaded one. The validators declared in the
  schema restate the rules of the hooks (dates, urgency) or bounds that the route
  validators have already enforced, so the hooks decide whether the save goes through.
  A loaded document is written back as an update of the paths that approve and reject
  assign; the driver reports an error when the document is gone.
\<close>

definition fresh_id :: "store \<Rightarrow> nat" where
  "fresh_id st = Suc (fold max (map lr_id st) 0)"

definition save_new :: "leave_request \<Rightarrow> int \<Rightarrow> store \<Rightarrow> string + store" where
  "save_new r hookNow st =
     (case pre_save r hookNow of Some e \<Rightarrow> Inl e | None \<Rightarrow> Inr (st @ [r]))"

fun write_decision :: "leave_request \<Rightarrow> store \<Rightarrow> store" where
  "write_decision r [] = []"
| "write_decision r (d # ds) =
     (if lr_id d = lr_id r
      then d\<lparr>status := status r, approvedBy := approvedBy r,
             approvedAt := approvedAt r, remarks := remarks r\<rparr> # ds
      else d # write_decision r ds)"

definition save_loaded :: "leave_request \<Rightarrow> int \<Rightarrow> store \<Rightarrow> string + store" where
  "save_loaded r hookNow st =
     (case pre_save r hookNow of
        Some e \<Rightarrow> Inl e
      | None \<Rightarrow> (if findById st (lr_id r) = None then Inl ''No document found''
                 else Inr (write_decision r st)))"

definition new_LeaveRequest :: "nat \<Rightarrow> nat \<Rightarrow> int \<Rightarrow> int \<Rightarrow> draft \<Rightarrow> leave_request" where
  "new_LeaveRequest oid sid fromDateObj toDateObj d =
     \<lparr>lr_id = oid, student = sid, fromDate = fromDateObj, toDate = toDateObj,
      reason = trim (d_reason d), leaveType = d_type d, status = Pending,
      remarks = None, approvedBy = None, approvedAt = None,
      contactDetails =
        \<lparr>cd_address = trim (cd_address (d_contactDetails d)),
         cd_phone = cd_phone (d_contactDetails d),
         cd_emergencyContact =
           \<lparr>ec_name = trim (ec_name (cd_emergencyContact (d_contactDetails d))),
            ec_relationship = trim (ec_relationship (cd_emergencyContact (d_contactDetails d))),
            ec_phone = ec_phone (cd_emergencyContact (d_contactDetails d))\<rparr>\<rparr>,
      isUrgent = (case d_isUrgent d of None \<Rightarrow> False
                  | Some v \<Rightarrow> castBoolean (if truthy v then v else JBool False)),
      urgentReason = (case d_isUrgent d of None \<Rightarrow> None
                      | Some v \<Rightarrow> if truthy v then map_option trim (d_urgentReason d)
                                  else None)\<rparr>"

text \<open>
  The handler, with \<open>now\<close> its own \<^verbatim>\<open>new Date()\<close>. The last case is never reached:
  a date that fails \<^verbatim>\<open>isISO8601\<close> is stopped by the validators.
\<close>

definition apply_handler ::
  "user \<Rightarrow> draft \<Rightarrow> int \<Rightarrow> int \<Rightarrow> store \<Rightarrow> (failure + leave_request) \<times> store" where
  "apply_handler actor d now hookNow st =
     (case requireStudent actor of
        Some f \<Rightarrow> (Inl f, st)
      | None \<Rightarrow>
         if apply_validators d \<noteq> [] then (Inl (Failure 400 (Errors (apply_validators d))), st)
         else (case (d_fromDate d, d_toDate d) of
            (Some fromDateObj, Some toDateObj) \<Rightarrow>
              if fromDateObj < now
              then (Inl (Failure 400 (Error ''From date cannot be in the past'')), st)
              else if toDateObj < fromDateObj
              then (Inl (Failure 400 (Error ''To date must be after or equal to from date'')), st)
              else if overlappingLeaves st (u_id actor) fromDateObj toDateObj \<noteq> []
              then (Inl (Failure 400
                      (Error ''You have overlapping leave requests for these dates'')), st)
              else (let leaveRequest =
                          new_LeaveRequest (fresh_id st) (u_id actor) fromDateObj toDateObj d
                    in case save_new leaveRequest hookNow st of
                         Inl e \<Rightarrow> (Inl (Failure 500 (Error ''Failed to submit leave request'')), st)
                       | Inr st' \<Rightarrow> (Inr leaveRequest, st'))
          | _ \<Rightarrow> (Inl (Failure 500 (Error ''Failed to submit leave request'')), st)))"

section \<open>PUT /:id/approve and PUT /:id/reject\<close>

text \<open>
  The path parameter, as \<^verbatim>\<open>isMongoId\<close> sees it: not an ObjectId, or the ObjectId
  identified with a number.
\<close>

datatype id_param = NotMongoId | MongoId nat

definition approve_validators :: "id_param \<Rightarrow> string option \<Rightarrow> (string \<times> string) list" where
  "approve_validators idp rmk =
     check (idp \<noteq> NotMongoId) ''id'' ''Valid leave request ID is required''
   @ check (case rmk of None \<Rightarrow> True | Some s \<Rightarrow> isLength 0 200 (trim s))
       ''remarks'' ''Invalid value''"

definition reject_validators :: "id_param \<Rightarrow> string option \<Rightarrow> (string \<times> string) list" where
  "reject_validators idp rmk =
     check (idp \<noteq> NotMongoId) ''id'' ''Valid leave request ID is required''
   @ check (isLength 5 200 (trim (case rmk of None \<Rightarrow> [] | Some s \<Rightarrow> s)))
       ''remarks'' ''Rejection remarks are required (5-200 characters)''"

text \<open>
  \<^verbatim>\<open>leaveRequestSchema.methods.approve\<close> and \<^verbatim>\<open>reject\<close>: the assignments to the
  loaded document, with \<open>now\<close> the \<^verbatim>\<open>new Date()\<close> of the method and the default
  \<^verbatim>\<open>remarks = ''\<close> of the parameter; then \<^verbatim>\<open>this.save()\<close>.
\<close>

definition decide :: "status \<Rightarrow> leave_request \<Rightarrow> nat \<Rightarrow> string option \<Rightarrow> int \<Rightarrow> leave_request" where
  "decide s r approver rmk now =
     r\<lparr>status := s, approvedBy := Some approver, approvedAt := Some now,
       remarks := Some (case rmk of None \<Rightarrow> [] | Some t \<Rightarrow> t)\<rparr>"

definition approve ::
  "leave_request \<Rightarrow> nat \<Rightarrow> string option \<Rightarrow> int \<Rightarrow> int \<Rightarrow> store \<Rightarrow> leave_request \<times> (string + store)" where
  "approve r approver rmk now hookNow st =
     (let r' = decide Approved r approver rmk now in (r', save_loaded r' hookNow st))"

definition reject ::
  "leave_request \<Rightarrow> nat \<Rightarrow> string option \<Rightarrow> int \<Rightarrow> int \<Rightarrow> store \<Rightarrow> leave_request \<times> (string + store)" where
  "reject r approver rmk now hookNow st =
     (let r' = decide Rejected r approver rmk now in (r', save_loaded r' hookNow st))"

text \<open>
  Each handler awaits twice: \<^verbatim>\<open>findById\<close>, after which it checks the status of the
  document it loaded, and the method's \<^verbatim>\<open>save()\<close>. The part up to the status check
  is \<open>approve_load\<close>, the rest \<open>approve_store\<close>; the handler run on its own is one
  after the other on the same store. The case \<open>NotMongoId\<close> after the validators is
  never reached.
\<close>

definition load_pending :: "id_param \<Rightarrow> store \<Rightarrow> string \<Rightarrow> failure + leave_request" where
  "load_pending idp st failed =
     (case idp of
        NotMongoId \<Rightarrow> Inl (Failure 500 (Error failed))
      | MongoId i \<Rightarrow>
         (case findById st i of
            None \<Rightarrow> Inl (Failure 404 (Error ''Leave request not found''))
          | Some r \<Rightarrow>
              if status r \<noteq> Pending
              then Inl (Failure 400 (Error ''Leave request is not pending''))
              else Inr r))"

definition approve_load :: "user \<Rightarrow> id_param \<Rightarrow> string option \<Rightarrow> store \<Rightarrow> failure + leave_request" where
  "approve_load actor idp rmk st =
     (case canApproveLeave actor of
        Some f \<Rightarrow> Inl f
      | None \<Rightarrow>
         if approve_validators idp rmk \<noteq> []
         then Inl (Failure 400 (Errors (approve_validators idp rmk)))
         else load_pending idp st ''Failed to approve leave request'')"

definition approve_store ::
  "leave_request \<Rightarrow> user \<Rightarrow> string option \<Rightarrow> int \<Rightarrow> int \<Rightarrow> store
     \<Rightarrow> (failure + leave_request) \<times> store" where
  "approve_store r actor rmk now hookNow st =
     (case approve r (u_id actor) (map_option trim rmk) now hookNow st of
        (r', Inl e) \<Rightarrow> (Inl (Failure 500 (Error ''Failed to approve leave request'')), st)
      | (r', Inr st') \<Rightarrow> (Inr r', st'))"

definition approve_handler ::
  "user \<Rightarrow> id_param \<Rightarrow> string option \<Rightarrow> int \<Rightarrow> int \<Rightarrow> store
     \<Rightarrow> (failure + leave_request) \<times> store" where
  "approve_handler actor idp rmk now hookNow st =
     (case approve_load actor idp rmk st of
        Inl f \<Rightarrow> (Inl f, st)
      | Inr r \<Rightarrow> approve_store r actor rmk now hookNow st)"

definition reject_load :: "user \<Rightarrow> id_param \<Rightarrow> string option \<Rightarrow> store \<Rightarrow> failure + leave_request" where
  "reject_load actor idp rmk st =
     (case canApproveLeave actor of
        Some f \<Rightarrow> Inl f
      | None \<Rightarrow>
         if reject_validators idp rmk \<noteq> []
         then Inl (Failure 400 (Errors (reject_validators idp rmk)))
         else load_pending idp st ''Failed to reject leave request'')"

definition reject_store ::
  "leave_request \<Rightarrow> user \<Rightarrow> string option \<Rightarrow> int \<Rightarrow> int \<Rightarrow> store
     \<Rightarrow> (failure + leave_request) \<times> store" where
  "reject_store r actor rmk now hookNow st =
     (case reject r (u_id actor) (map_option trim rmk) now hookNow st of
        (r', Inl e) \<Rightarrow> (Inl (Failure 500 (Error ''Failed to reject leave request'')), st)
      | (r', Inr st') \<Rightarrow> (Inr r', st'))"

definition reject_handler ::
  "user \<Rightarrow> id_param \<Rightarrow> string option \<Rightarrow> int \<Rightarrow> int \<Rightarrow> store
     \<Rightarrow> (failure + leave_request) \<times> store" where
  "reject_handler actor idp rmk now hookNow st =
     (case reject_load actor idp rmk st of
        Inl f \<Rightarrow> (Inl f, st)
      | Inr r \<Rightarrow> reject_store r actor rmk now hookNow st)"

section \<open>PUT /profile\<close>























section \<open>Example documents\<close>

definition ex_contact :: contact_details where
  "ex_contact =
     \<lparr>cd_address = ''12 Beach Road, Panaji'', cd_phone = ''9876543210'',
      cd_emergencyContact =
        \<lparr>ec_name = ''Asha'', ec_relationship = ''Mother'', ec_phone = ''9123456780''\<rparr>\<rparr>"

definition ex_user :: "nat \<Rightarrow> role \<Rightarrow> user" where
  "ex_user i rl =
     \<lparr>u_id = i, name = ''Ravi'', email = ''ravi@nitgoa.ac.in'', role = rl,
      studentId = Some ''21CSE1001'', department = None, year = Some 2, hostel = None,
      roomNumber = None, contactNumber = None, emergencyContact = None,
      googleId = Some ''g-1'', profilePicture = [], isActive = True, lastLogin = 0\<rparr>"


definition ex_request :: "nat \<Rightarrow> nat \<Rightarrow> int \<Rightarrow> int \<Rightarrow> leave_request" where
  "ex_request i sid f t =
     \<lparr>lr_id = i, student = sid, fromDate = f, toDate = t,
      reason = ''Family function at home'', leaveType = ''home'', status = Pending,
      remarks = None, approvedBy = None, approvedAt = None, contactDetails = ex_contact,
      isUrgent = False, urgentReason = None\<rparr>"

definition ex_draft :: "int \<Rightarrow> int \<Rightarrow> draft" where
  "ex_draft f t =
     \<lparr>d_fromDate = Some f, d_toDate = Some t, d_reason = ''Family function at home'',
      d_type = ''home'', d_contactDetails = ex_contact, d_isUrgent = None,
      d_urgentReason = None\<rparr>"


section \<open>Lookups in the collections\<close>

lemma findById_mem: "findById st i = Some r \<Longrightarrow> r \<in> set st \<and> lr_id r = i"
  by (induction st) (auto split: if_splits)

lemma findById_None_iff: "findById st i = None \<longleftrightarrow> i \<notin> lr_id ` set st"
  by (induction st) auto

lemma findById_delete_same:
  "distinct (map lr_id st) \<Longrightarrow> findById (findByIdAndDelete i st) i = None"
  by (induction st) (auto simp: findById_None_iff)

lemma findById_delete_other:
  "j \<noteq> i \<Longrightarrow> findById (findByIdAndDelete i st) j = findById st j"
  by (induction st) auto

lemma findById_write_decision:
  "findById st (lr_id r') = Some d \<Longrightarrow>
   findById (write_decision r' st) (lr_id r')
     = Some (d\<lparr>status := status r', approvedBy := approvedBy r',
               approvedAt := approvedAt r', remarks := remarks r'\<rparr>)"
  by (induction st) (auto split: if_splits)

lemma findById_write_decision_other:
  "j \<noteq> lr_id r' \<Longrightarrow> findById (write_decision r' st) j = findById st j"
  by (induction st) auto




section \<open>Error kinds of the messages\<close>

lemma kind_not_pending: "kind_of (Failure 400 (Error ''Leave request is not pending'')) = InvalidTransition"
  by (simp add: not_pending_messages_def)

lemma kind_400_Errors: "kind_of (Failure 400 (Errors es)) = ValidationError"
  by simp

lemma kind_past: "kind_of (Failure 400 (Error ''From date cannot be in the past'')) = ValidationError"
  by (simp add: not_pending_messages_def)

lemma kind_order:
  "kind_of (Failure 400 (Error ''To date must be after or equal to from date'')) = ValidationError"
  by (simp add: not_pending_messages_def)

lemma kind_overlap:
  "kind_of (Failure 400 (Error ''You have overlapping leave requests for these dates''))
     = ValidationError"
  by (simp add: not_pending_messages_def)

section \<open>Facts about the example documents\<close>

lemma ex_draft_valid: "apply_validators (ex_draft f t) = []"
  by (simp add: apply_validators_def ex_draft_def ex_contact_def check_def isLength_def trim_def
        is_space_def matches_phone_def is_digit_def)

lemma ex_student: "role (ex_user i Student) = Student" "u_id (ex_user i rl) = i"
  by (simp_all add: ex_user_def)

lemma ex_draft_dates: "d_fromDate (ex_draft f t) = Some f" "d_toDate (ex_draft f t) = Some t"
  by (simp_all add: ex_draft_def)

lemma ex_request_facts:
  "findById [ex_request i sid f t] i = Some (ex_request i sid f t)"
  "status (ex_request i sid f t) = Pending"
  "lr_id (ex_request i sid f t) = i"
  "pre_save (ex_request i sid f t) h = (if f < h then Some ''From date cannot be in the past''
      else if t < f then Some ''To date must be after or equal to from date'' else None)"
  by (simp_all add: ex_request_def pre_save_def pre_save_dates_def pre_save_urgent_def)

lemma ex_approvers: "canApproveLeaves (ex_user i Warden)" "canApproveLeaves (ex_user i Caretaker)"
  "canApproveLeaves (ex_user i Admin)" "\<not> canApproveLeaves (ex_user i Student)"
  by (simp_all add: canApproveLeaves_def ex_user_def)

section \<open>Approve and reject\<close>

lemma load_pending_Inr:
  "load_pending idp st m = Inr r \<Longrightarrow> \<exists>i. idp = MongoId i \<and> findById st i = Some r \<and> status r = Pending"
  by (auto simp: load_pending_def split: id_param.splits option.splits if_splits)

lemma approve_load_Inr:
  "approve_load actor idp rmk st = Inr r \<Longrightarrow>
     canApproveLeaves actor \<and> approve_validators idp rmk = []
     \<and> (\<exists>i. idp = MongoId i \<and> findById st i = Some r \<and> status r = Pending)"
  by (auto simp: approve_load_def canApproveLeave_def dest: load_pending_Inr
           split: option.splits if_splits)

text \<open>
  A handler that fails leaves the collection as it was.
\<close>

lemma reject_load_Inr:
  "reject_load actor idp rmk st = Inr r \<Longrightarrow>
     canApproveLeaves actor \<and> reject_validators idp rmk = []
     \<and> (\<exists>i. idp = MongoId i \<and> findById st i = Some r \<and> status r = Pending)"
  by (auto simp: reject_load_def canApproveLeave_def dest: load_pending_Inr
           split: option.splits if_splits)

lemma approve_handler_Inl: "approve_handler actor idp rmk now hookNow st = (Inl f, st') \<Longrightarrow> st' = st"
  by (auto simp: approve_handler_def approve_store_def approve_def Let_def split: sum.splits)

lemma reject_handler_Inl: "reject_handler actor idp rmk now hookNow st = (Inl f, st') \<Longrightarrow> st' = st"
  by (auto simp: reject_handler_def reject_store_def reject_def Let_def split: sum.splits)

lemma approve_load_not_pending:
  assumes "findById st i = Some r" and "status r \<noteq> Pending"
  shows "\<exists>f. approve_load actor (MongoId i) rmk st = Inl f"
     and "canApproveLeaves actor \<Longrightarrow> approve_validators (MongoId i) rmk = [] \<Longrightarrow>
          approve_load actor (MongoId i) rmk st = Inl (Failure 400 (Error ''Leave request is not pending''))"
  using assms
  by (auto simp: approve_load_def canApproveLeave_def load_pending_def split: option.splits)

lemma reject_load_not_pending:
  assumes "findById st i = Some r" and "status r \<noteq> Pending"
  shows "\<exists>f. reject_load actor (MongoId i) rmk st = Inl f"
     and "canApproveLeaves actor \<Longrightarrow> reject_validators (MongoId i) rmk = [] \<Longrightarrow>
          reject_load actor (MongoId i) rmk st = Inl (Failure 400 (Error ''Leave request is not pending''))"
  using assms
  by (auto simp: reject_load_def canApproveLeave_def load_pending_def split: option.splits)

lemma approve_load_ok:
  assumes "findById st i = Some r" and "status r = Pending" and "canApproveLeaves a"
    and "approve_validators (MongoId i) k = []"
  shows "approve_load a (MongoId i) k st = Inr r"
  using assms by (simp add: approve_load_def canApproveLeave_def load_pending_def)

lemma reject_load_ok:
  assumes "findById st i = Some r" and "status r = Pending" and "canApproveLeaves a"
    and "reject_validators (MongoId i) k = []"
  shows "reject_load a (MongoId i) k st = Inr r"
  using assms by (simp add: reject_load_def canApproveLeave_def load_pending_def)

text \<open>
  The hooks read only fields that a decision does not assign.
\<close>

lemma approve_validators_absent: "approve_validators (MongoId i) None = []"
  by (simp add: approve_validators_def check_def)

lemma pre_save_decide: "pre_save (decide s r a k n) h = pre_save r h"
  by (simp add: pre_save_def pre_save_dates_def pre_save_urgent_def decide_def)

lemma lr_id_decide: "lr_id (decide s r a k n) = lr_id r"
  by (simp add: decide_def)

lemma decide_twice:
  "(decide s r a k n)\<lparr>status := status (decide s' r a' k' n'),
       approvedBy := approvedBy (decide s' r a' k' n'),
       approvedAt := approvedAt (decide s' r a' k' n'),
       remarks := remarks (decide s' r a' k' n')\<rparr> = decide s' r a' k' n'"
  by (simp add: decide_def)

lemma decide_write:
  "r\<lparr>status := status (decide s r a k n), approvedBy := approvedBy (decide s r a k n),
     approvedAt := approvedAt (decide s r a k n), remarks := remarks (decide s r a k n)\<rparr>
   = decide s r a k n"
  by (simp add: decide_def)

lemma approve_store_ok:
  assumes "findById st (lr_id r) = Some d" and "pre_save r h = None"
  shows "approve_store r a k n h st =
     (Inr (decide Approved r (u_id a) (map_option trim k) n),
      write_decision (decide Approved r (u_id a) (map_option trim k) n) st)"
  using assms
  by (simp add: approve_store_def approve_def Let_def save_loaded_def pre_save_decide lr_id_decide)

lemma reject_store_ok:
  assumes "findById st (lr_id r) = Some d" and "pre_save r h = None"
  shows "reject_store r a k n h st =
     (Inr (decide Rejected r (u_id a) (map_option trim k) n),
      write_decision (decide Rejected r (u_id a) (map_option trim k) n) st)"
  using assms
  by (simp add: reject_store_def reject_def Let_def save_loaded_def pre_save_decide lr_id_decide)

lemma approve_store_fails:
  assumes "pre_save r h \<noteq> None"
  shows "approve_store r a k n h st
           = (Inl (Failure 500 (Error ''Failed to approve leave request'')), st)"
  using assms
  by (auto simp: approve_store_def approve_def Let_def save_loaded_def pre_save_decide)

text \<open>
  C1. Let the request stored under an id be \<open>r\<close>. If its status is approved or rejected,
  approve and reject on it fail and return the collection unchanged, whoever the actor and
  whatever the remarks; for an actor who can approve leaves and remarks that pass the
  validators of the route, the failure is the one of kind InvalidTransition. Conversely,
  whenever approve or reject on the id succeeds, the status of \<open>r\<close> was pending.
\<close>

theorem decided_request_is_final:
  assumes "findById st i = Some r"
  shows "(status r = Approved \<or> status r = Rejected \<longrightarrow>
            (\<exists>f. approve_handler actor (MongoId i) rmk now hookNow st = (Inl f, st))
          \<and> (\<exists>f. reject_handler actor (MongoId i) rmk now hookNow st = (Inl f, st))
          \<and> (canApproveLeaves actor \<and> approve_validators (MongoId i) rmk = [] \<longrightarrow>
               (\<exists>f. approve_handler actor (MongoId i) rmk now hookNow st = (Inl f, st)
                    \<and> kind_of f = InvalidTransition))
          \<and> (canApproveLeaves actor \<and> reject_validators (MongoId i) rmk = [] \<longrightarrow>
               (\<exists>f. reject_handler actor (MongoId i) rmk now hookNow st = (Inl f, st)
                    \<and> kind_of f = InvalidTransition)))
       \<and> ((\<exists>r' st'. approve_handler actor (MongoId i) rmk now hookNow st = (Inr r', st'))
            \<longrightarrow> status r = Pending)
       \<and> ((\<exists>r' st'. reject_handler actor (MongoId i) rmk now hookNow st = (Inr r', st'))
            \<longrightarrow> status r = Pending)"
proof -
  have only_a: "status r = Pending"
    if "approve_handler actor (MongoId i) rmk now hookNow st = (Inr r', st')" for r' st'
  proof -
    from that obtain p where "approve_load actor (MongoId i) rmk st = Inr p"
      by (auto simp: approve_handler_def split: sum.splits)
    from approve_load_Inr[OF this] assms show ?thesis by auto
  qed
  have only_r: "status r = Pending"
    if "reject_handler actor (MongoId i) rmk now hookNow st = (Inr r', st')" for r' st'
  proof -
    from that obtain p where "reject_load actor (MongoId i) rmk st = Inr p"
      by (auto simp: reject_handler_def split: sum.splits)
    from reject_load_Inr[OF this] assms show ?thesis by auto
  qed
  have final: "(\<exists>f. approve_handler actor (MongoId i) rmk now hookNow st = (Inl f, st))
          \<and> (\<exists>f. reject_handler actor (MongoId i) rmk now hookNow st = (Inl f, st))
          \<and> (canApproveLeaves actor \<and> approve_validators (MongoId i) rmk = [] \<longrightarrow>
               (\<exists>f. approve_handler actor (MongoId i) rmk now hookNow st = (Inl f, st)
                    \<and> kind_of f = InvalidTransition))
          \<and> (canApproveLeaves actor \<and> reject_validators (MongoId i) rmk = [] \<longrightarrow>
               (\<exists>f. reject_handler actor (MongoId i) rmk now hookNow st = (Inl f, st)
                    \<and> kind_of f = InvalidTransition))"
    if np: "status r \<noteq> Pending"
  proof (intro conjI impI)
    from approve_load_not_pending(1)[OF assms np, of actor rmk]
    show "\<exists>f. approve_handler actor (MongoId i) rmk now hookNow st = (Inl f, st)"
      by (auto simp: approve_handler_def)
    from reject_load_not_pending(1)[OF assms np, of actor rmk]
    show "\<exists>f. reject_handler actor (MongoId i) rmk now hookNow st = (Inl f, st)"
      by (auto simp: reject_handler_def)
  next
    assume "canApproveLeaves actor \<and> approve_validators (MongoId i) rmk = []"
    with approve_load_not_pending(2)[OF assms np, of actor rmk]
    show "\<exists>f. approve_handler actor (MongoId i) rmk now hookNow st = (Inl f, st)
              \<and> kind_of f = InvalidTransition"
      by (auto simp: approve_handler_def not_pending_messages_def)
  next
    assume "canApproveLeaves actor \<and> reject_validators (MongoId i) rmk = []"
    with reject_load_not_pending(2)[OF assms np, of actor rmk]
    show "\<exists>f. reject_handler actor (MongoId i) rmk now hookNow st = (Inl f, st)
              \<and> kind_of f = InvalidTransition"
      by (auto simp: reject_handler_def not_pending_messages_def)
  qed
  show ?thesis
    using only_a only_r final by (cases "status r") auto
qed

text \<open>
  A rejected and an approved request, each refused with InvalidTransition, and a pending one
  on which approve succeeds.
\<close>

theorem decided_request_is_final_witness:
  "(\<exists>f. approve_handler (ex_user 7 Warden) (MongoId 1) (Some ''ok'') 5 5
            [decide Rejected (ex_request 1 1 10 12) 8 (Some ''exam week'') 4]
          = (Inl f, [decide Rejected (ex_request 1 1 10 12) 8 (Some ''exam week'') 4])
        \<and> kind_of f = InvalidTransition)
 \<and> (\<exists>f. reject_handler (ex_user 7 Warden) (MongoId 1) (Some ''too late'') 5 5
            [decide Approved (ex_request 1 1 10 12) 8 None 4]
          = (Inl f, [decide Approved (ex_request 1 1 10 12) 8 None 4])
        \<and> kind_of f = InvalidTransition)
 \<and> (\<exists>r' st'. approve_handler (ex_user 7 Warden) (MongoId 1) None 5 5 [ex_request 1 1 10 12]
          = (Inr r', st'))
 \<and> status (ex_request 1 1 10 12) = Pending"
proof -
  let ?a = "decide Approved (ex_request 1 1 10 12) 8 None 4"
  let ?r = "decide Rejected (ex_request 1 1 10 12) 8 (Some ''exam week'') 4"
  have fa: "findById [?a] 1 = Some ?a" and fr: "findById [?r] 1 = Some ?r"
    and fp: "findById [ex_request 1 1 10 12] 1 = Some (ex_request 1 1 10 12)"
    by (simp_all add: decide_def ex_request_def)
  have sa: "status ?a = Approved" and sr: "status ?r = Rejected"
    by (simp_all add: decide_def)
  have c: "canApproveLeaves (ex_user 7 Warden)"
    by (simp add: canApproveLeaves_def ex_user_def)
  have v: "approve_validators (MongoId 1) (Some ''ok'') = []"
    "reject_validators (MongoId 1) (Some ''too late'') = []"
    by (simp_all add: approve_validators_def reject_validators_def check_def isLength_def
          trim_def is_space_def)
  have ok: "\<exists>r' st'. approve_handler (ex_user 7 Warden) (MongoId 1) None 5 5
              [ex_request 1 1 10 12] = (Inr r', st')"
    by (simp add: approve_handler_def approve_load_def canApproveLeave_def canApproveLeaves_def
          approve_validators_def check_def load_pending_def approve_store_def approve_def
          decide_def save_loaded_def pre_save_def pre_save_dates_def pre_save_urgent_def
          ex_user_def ex_request_def Let_def)
  from decided_request_is_final[OF fr, of "ex_user 7 Warden" "Some ''ok''" 5 5]
    decided_request_is_final[OF fa, of "ex_user 7 Warden" "Some ''too late''" 5 5]
    decided_request_is_final[OF fp, of "ex_user 7 Warden" None 5 5]
    sa sr c v ok
  show ?thesis by blast
qed

text \<open>
  C2, as the handlers have it. The status check and the write are two steps, \<open>findById\<close>
  and later \<open>save()\<close>, and the write is not conditioned on the stored status. For a pending
  request, two approvers and saves that pass the hooks: when the second invocation starts
  after the first has finished, the first succeeds and the second fails with
  InvalidTransition; when both invocations load the document before either saves, both
  loads pass the status check, both saves succeed, and the document holds the decision
  of the later save. The same holds when the second invocation is a reject.
\<close>

theorem approve_check_then_save:
  assumes "findById st i = Some r" and "status r = Pending"
    and "canApproveLeaves a" and "canApproveLeaves b"
    and "approve_validators (MongoId i) ka = []" and "approve_validators (MongoId i) kb = []"
    and "pre_save r ha = None" and "pre_save r hb = None"
  shows "(\<exists>r1 st1 f. approve_handler a (MongoId i) ka na ha st = (Inr r1, st1)
            \<and> approve_handler b (MongoId i) kb nb hb st1 = (Inl f, st1)
            \<and> kind_of f = InvalidTransition)
       \<and> approve_load a (MongoId i) ka st = Inr r
       \<and> approve_load b (MongoId i) kb st = Inr r
       \<and> (\<exists>r1 st1 r2 st2. approve_store r a ka na ha st = (Inr r1, st1)
            \<and> approve_store r b kb nb hb st1 = (Inr r2, st2)
            \<and> findById st2 i = Some r2
            \<and> r2 = decide Approved r (u_id b) (map_option trim kb) nb)
       \<and> (reject_validators (MongoId i) kb = [] \<longrightarrow>
            (\<exists>r1 st1 f. approve_handler a (MongoId i) ka na ha st = (Inr r1, st1)
               \<and> reject_handler b (MongoId i) kb nb hb st1 = (Inl f, st1)
               \<and> kind_of f = InvalidTransition)
          \<and> reject_load b (MongoId i) kb st = Inr r
          \<and> (\<exists>r1 st1 r2 st2. approve_store r a ka na ha st = (Inr r1, st1)
               \<and> reject_store r b kb nb hb st1 = (Inr r2, st2)
               \<and> findById st2 i = Some r2
               \<and> r2 = decide Rejected r (u_id b) (map_option trim kb) nb))"
proof -
  have id: "lr_id r = i"
    using assms(1) by (simp add: findById_mem)
  let ?r1 = "decide Approved r (u_id a) (map_option trim ka) na"
  let ?r2 = "decide Approved r (u_id b) (map_option trim kb) nb"
  let ?st1 = "write_decision ?r1 st"
  let ?st2 = "write_decision ?r2 ?st1"
  have l1: "approve_load a (MongoId i) ka st = Inr r"
    and l2: "approve_load b (MongoId i) kb st = Inr r"
    using assms by (simp_all add: approve_load_ok)
  have f0: "findById st (lr_id r) = Some r"
    using assms(1) id by simp
  have s1: "approve_store r a ka na ha st = (Inr ?r1, ?st1)"
    using f0 assms(7) by (rule approve_store_ok)
  have f1: "findById ?st1 i = Some ?r1"
    using findById_write_decision[of st ?r1 r] f0 id
    by (simp add: lr_id_decide decide_write)
  have s2: "approve_store r b kb nb hb ?st1 = (Inr ?r2, ?st2)"
    using f1 id assms(8) by (simp add: approve_store_ok)
  have f2: "findById ?st2 i = Some ?r2"
    using findById_write_decision[of ?st1 ?r2 ?r1] f1 id
    by (simp add: lr_id_decide decide_twice)
  have np: "status ?r1 \<noteq> Pending"
    by (simp add: decide_def)
  have run1: "approve_handler a (MongoId i) ka na ha st = (Inr ?r1, ?st1)"
    by (simp add: approve_handler_def l1 s1)
  have run2: "approve_handler b (MongoId i) kb nb hb ?st1
              = (Inl (Failure 400 (Error ''Leave request is not pending'')), ?st1)"
    using approve_load_not_pending(2)[OF f1 np assms(4) assms(6)]
    by (simp add: approve_handler_def)
  have mixed: "(\<exists>r1 st1 f. approve_handler a (MongoId i) ka na ha st = (Inr r1, st1)
               \<and> reject_handler b (MongoId i) kb nb hb st1 = (Inl f, st1)
               \<and> kind_of f = InvalidTransition)
          \<and> reject_load b (MongoId i) kb st = Inr r
          \<and> (\<exists>r1 st1 r2 st2. approve_store r a ka na ha st = (Inr r1, st1)
               \<and> reject_store r b kb nb hb st1 = (Inr r2, st2)
               \<and> findById st2 i = Some r2
               \<and> r2 = decide Rejected r (u_id b) (map_option trim kb) nb)"
    if v: "reject_validators (MongoId i) kb = []"
  proof -
    let ?q2 = "decide Rejected r (u_id b) (map_option trim kb) nb"
    let ?qt2 = "write_decision ?q2 ?st1"
    have l3: "reject_load b (MongoId i) kb st = Inr r"
      using assms v by (simp add: reject_load_ok)
    have s3: "reject_store r b kb nb hb ?st1 = (Inr ?q2, ?qt2)"
      using f1 id assms(8) by (simp add: reject_store_ok)
    have f3: "findById ?qt2 i = Some ?q2"
      using findById_write_decision[of ?st1 ?q2 ?r1] f1 id
      by (simp add: lr_id_decide decide_twice)
    have run3: "reject_handler b (MongoId i) kb nb hb ?st1
              = (Inl (Failure 400 (Error ''Leave request is not pending'')), ?st1)"
      using reject_load_not_pending(2)[OF f1 np assms(4) v]
      by (simp add: reject_handler_def)
    show ?thesis
      using run1 run3 l3 s1 s3 f3 kind_not_pending by blast
  qed
  have same: "(\<exists>r1 st1 f. approve_handler a (MongoId i) ka na ha st = (Inr r1, st1)
            \<and> approve_handler b (MongoId i) kb nb hb st1 = (Inl f, st1)
            \<and> kind_of f = InvalidTransition)
       \<and> approve_load a (MongoId i) ka st = Inr r
       \<and> approve_load b (MongoId i) kb st = Inr r
       \<and> (\<exists>r1 st1 r2 st2. approve_store r a ka na ha st = (Inr r1, st1)
            \<and> approve_store r b kb nb hb st1 = (Inr r2, st2)
            \<and> findById st2 i = Some r2
            \<and> r2 = decide Approved r (u_id b) (map_option trim kb) nb)"
    using run1 run2 l1 l2 s1 s2 f2 kind_not_pending by blast
  show ?thesis
    using same mixed by blast
qed

text \<open>
  A warden and a caretaker on one pending request: in sequence, and with both loads first.
\<close>

theorem approve_check_then_save_witness:
  "(\<exists>r1 st1 f. approve_handler (ex_user 7 Warden) (MongoId 3) None 5 5 [ex_request 3 2 10 12]
                  = (Inr r1, st1)
        \<and> approve_handler (ex_user 8 Caretaker) (MongoId 3) None 6 6 st1 = (Inl f, st1)
        \<and> kind_of f = InvalidTransition)
 \<and> approve_load (ex_user 7 Warden) (MongoId 3) None [ex_request 3 2 10 12]
      = Inr (ex_request 3 2 10 12)
 \<and> approve_load (ex_user 8 Caretaker) (MongoId 3) None [ex_request 3 2 10 12]
      = Inr (ex_request 3 2 10 12)
 \<and> (\<exists>r1 st1 r2 st2.
        approve_store (ex_request 3 2 10 12) (ex_user 7 Warden) None 5 5 [ex_request 3 2 10 12]
          = (Inr r1, st1)
      \<and> approve_store (ex_request 3 2 10 12) (ex_user 8 Caretaker) None 6 6 st1 = (Inr r2, st2)
      \<and> findById st2 3 = Some r2
      \<and> r2 = decide Approved (ex_request 3 2 10 12) (u_id (ex_user 8 Caretaker))
                (map_option trim None) 6)
 \<and> (\<exists>r1 st1 r2 st2.
        approve_store (ex_request 3 2 10 12) (ex_user 7 Warden) None 5 5 [ex_request 3 2 10 12]
          = (Inr r1, st1)
      \<and> reject_store (ex_request 3 2 10 12) (ex_user 8 Caretaker) (Some ''exam week'') 6 6 st1
          = (Inr r2, st2)
      \<and> findById st2 3 = Some r2
      \<and> r2 = decide Rejected (ex_request 3 2 10 12) (u_id (ex_user 8 Caretaker))
                (map_option trim (Some ''exam week'')) 6)"
proof -
  have p: "pre_save (ex_request 3 2 10 12) 5 = None" "pre_save (ex_request 3 2 10 12) 6 = None"
    by (simp_all add: ex_request_facts)
  have f: "findById [ex_request 3 2 10 12] 3 = Some (ex_request 3 2 10 12)"
    by (rule ex_request_facts)
  have c: "canApproveLeaves (ex_user 7 Warden)" "canApproveLeaves (ex_user 8 Caretaker)"
    by (rule ex_approvers)+
  note T = approve_check_then_save[OF f ex_request_facts(2) c approve_validators_absent
      approve_validators_absent p, where na = 5 and nb = 6]
  have va: "approve_validators (MongoId 3) (Some ''exam week'') = []"
    and vr: "reject_validators (MongoId 3) (Some ''exam week'') = []"
    by (simp_all add: approve_validators_def reject_validators_def check_def isLength_def
          trim_def is_space_def)
  note M = approve_check_then_save[OF f ex_request_facts(2) c approve_validators_absent va p,
      where na = 5 and nb = 6]
  show ?thesis
    by (intro conjI T[THEN conjunct1] T[THEN conjunct2, THEN conjunct1]
          T[THEN conjunct2, THEN conjunct2, THEN conjunct1]
          T[THEN conjunct2, THEN conjunct2, THEN conjunct2, THEN conjunct1]
          M[THEN conjunct2, THEN conjunct2, THEN conjunct2, THEN conjunct2, THEN mp, OF vr,
            THEN conjunct2, THEN conjunct2])
qed

text \<open>
  Both approvers load the pending request, then both saves succeed: the two invocations
  both report success, and the later one overwrites the earlier decision.
\<close>

theorem approve_race_counterexample:
  "approve_load (ex_user 7 Warden) (MongoId 3) None [ex_request 3 2 10 12]
      = Inr (ex_request 3 2 10 12)
 \<and> approve_load (ex_user 8 Caretaker) (MongoId 3) None [ex_request 3 2 10 12]
      = Inr (ex_request 3 2 10 12)
 \<and> approve_store (ex_request 3 2 10 12) (ex_user 7 Warden) None 5 5 [ex_request 3 2 10 12]
      = (Inr (decide Approved (ex_request 3 2 10 12) 7 None 5),
         [decide Approved (ex_request 3 2 10 12) 7 None 5])
 \<and> approve_store (ex_request 3 2 10 12) (ex_user 8 Caretaker) None 6 6
        [decide Approved (ex_request 3 2 10 12) 7 None 5]
      = (Inr (decide Approved (ex_request 3 2 10 12) 8 None 6),
         [decide Approved (ex_request 3 2 10 12) 8 None 6])"
proof -
  have l: "approve_load (ex_user i rl) (MongoId 3) None [ex_request 3 2 10 12]
      = Inr (ex_request 3 2 10 12)" if "canApproveLeaves (ex_user i rl)" for i rl
    using ex_request_facts(1) ex_request_facts(2) that approve_validators_absent
    by (rule approve_load_ok)
  have p: "pre_save (ex_request 3 2 10 12) 5 = None" "pre_save (ex_request 3 2 10 12) 6 = None"
    by (simp_all add: ex_request_facts)
  have f1: "findById [ex_request 3 2 10 12] (lr_id (ex_request 3 2 10 12))
              = Some (ex_request 3 2 10 12)"
    by (simp add: ex_request_def)
  have f2: "findById [decide Approved (ex_request 3 2 10 12) 7 None 5]
              (lr_id (ex_request 3 2 10 12)) = Some (decide Approved (ex_request 3 2 10 12) 7 None 5)"
    by (simp add: ex_request_def decide_def)
  have s1: "approve_store (ex_request 3 2 10 12) (ex_user 7 Warden) None 5 5 [ex_request 3 2 10 12]
      = (Inr (decide Approved (ex_request 3 2 10 12) 7 None 5),
         [decide Approved (ex_request 3 2 10 12) 7 None 5])"
    unfolding approve_store_ok[OF f1 p(1)]
    by (simp add: ex_user_def) (simp add: decide_def ex_request_def)
  have s2: "approve_store (ex_request 3 2 10 12) (ex_user 8 Caretaker) None 6 6
        [decide Approved (ex_request 3 2 10 12) 7 None 5]
      = (Inr (decide Approved (ex_request 3 2 10 12) 8 None 6),
         [decide Approved (ex_request 3 2 10 12) 8 None 6])"
    unfolding approve_store_ok[OF f2 p(2)]
    by (simp add: ex_user_def) (simp add: decide_def ex_request_def)
  show ?thesis
    by (intro conjI l ex_approvers s1 s2)
qed

section \<open>Remarks of a decision\<close>

text \<open>
  Reject with absent or empty remarks is stopped by the validator of the route.
\<close>

lemma reject_without_remarks:
  assumes "canApproveLeaves a" and "k = None \<or> k = Some []"
  shows "\<exists>f. reject_handler a idp k now h st = (Inl f, st) \<and> kind_of f = ValidationError"
proof -
  have "reject_validators idp k \<noteq> []"
    using assms(2) by (auto simp: reject_validators_def check_def isLength_def trim_def)
  then show ?thesis
    using assms(1) by (simp add: reject_handler_def reject_load_def canApproveLeave_def)
qed

text \<open>
  Approve with absent remarks stores the empty string, provided the save passes the hooks.
\<close>

lemma approve_without_remarks:
  assumes "findById st i = Some r" and "status r = Pending" and "canApproveLeaves a"
    and "pre_save r h = None"
  shows "\<exists>r' st'. approve_handler a (MongoId i) None now h st = (Inr r', st')
           \<and> status r' = Approved \<and> remarks r' = Some [] \<and> approvedBy r' = Some (u_id a)
           \<and> approvedAt r' = Some now \<and> findById st' i = Some r'"
proof -
  let ?r = "decide Approved r (u_id a) None now"
  have id: "lr_id r = i"
    using assms(1) by (simp add: findById_mem)
  have f: "findById st (lr_id r) = Some r"
    using assms(1) id by simp
  have "approve_handler a (MongoId i) None now h st = (Inr ?r, write_decision ?r st)"
    using approve_load_ok[OF assms(1-3) approve_validators_absent] approve_store_ok[OF f assms(4)]
    by (simp add: approve_handler_def)
  moreover have "findById (write_decision ?r st) i = Some ?r"
    using findById_write_decision[of st ?r r] f id by (simp add: lr_id_decide decide_write)
  moreover have "status ?r = Approved \<and> remarks ?r = Some [] \<and> approvedBy ?r = Some (u_id a)
      \<and> approvedAt ?r = Some now"
    by (simp add: decide_def)
  ultimately show ?thesis by blast
qed

text \<open>
  The date hook runs on every save, so it also runs on the save of an approval, with the
  clock of that moment.
\<close>

lemma overdue_approval:
  assumes "findById st i = Some r" and "status r = Pending" and "canApproveLeaves a"
    and "approve_validators (MongoId i) k = []" and "fromDate r < hookNow"
  shows "approve_handler a (MongoId i) k now hookNow st
           = (Inl (Failure 500 (Error ''Failed to approve leave request'')), st)"
proof -
  have "pre_save r hookNow \<noteq> None"
    using assms(5) by (simp add: pre_save_def pre_save_dates_def)
  then show ?thesis
    using approve_load_ok[OF assms(1-4)] by (simp add: approve_handler_def approve_store_fails)
qed

text \<open>
  C5 at a pending request whose first day has passed when the approver acts: the request
  is pending, the actor can approve leaves, the remarks are absent, and the handler answers
  with status 500 and leaves the request pending.
\<close>

theorem approve_overdue_fails:
  "findById [ex_request 3 2 10 12] 3 = Some (ex_request 3 2 10 12)
 \<and> status (ex_request 3 2 10 12) = Pending
 \<and> canApproveLeaves (ex_user 7 Warden)
 \<and> fromDate (ex_request 3 2 10 12) < 11
 \<and> approve_handler (ex_user 7 Warden) (MongoId 3) None 11 11 [ex_request 3 2 10 12]
     = (Inl (Failure 500 (Error ''Failed to approve leave request'')), [ex_request 3 2 10 12])
 \<and> kind_of (Failure 500 (Error ''Failed to approve leave request'')) = InternalFailure"
proof -
  have d: "fromDate (ex_request 3 2 10 12) < 11"
    by (simp add: ex_request_def)
  have k: "kind_of (Failure 500 (Error ''Failed to approve leave request'')) = InternalFailure"
    by simp
  show ?thesis
    by (intro conjI ex_request_facts ex_approvers d k
          overdue_approval[OF ex_request_facts(1) ex_request_facts(2) ex_approvers(1)
            approve_validators_absent d])
qed

section \<open>Submission\<close>

text \<open>
  The handler for a student and a draft whose dates parse, as one chain of conditions.
\<close>

lemma apply_handler_student:
  assumes "role actor = Student" and "d_fromDate d = Some f" and "d_toDate d = Some t"
  shows "apply_handler actor d now hookNow st =
     (if apply_validators d \<noteq> [] then (Inl (Failure 400 (Errors (apply_validators d))), st)
      else if f < now then (Inl (Failure 400 (Error ''From date cannot be in the past'')), st)
      else if t < f
      then (Inl (Failure 400 (Error ''To date must be after or equal to from date'')), st)
      else if overlappingLeaves st (u_id actor) f t \<noteq> []
      then (Inl (Failure 400 (Error ''You have overlapping leave requests for these dates'')), st)
      else (case save_new (new_LeaveRequest (fresh_id st) (u_id actor) f t d) hookNow st of
              Inl e \<Rightarrow> (Inl (Failure 500 (Error ''Failed to submit leave request'')), st)
            | Inr st' \<Rightarrow> (Inr (new_LeaveRequest (fresh_id st) (u_id actor) f t d), st')))"
  using assms by (simp add: apply_handler_def requireStudent_def requireRole_def Let_def)

lemma overlapping_nonempty:
  assumes "r \<in> set st" and "student r = sid" and "status r = Pending \<or> status r = Approved"
    and "fromDate r \<le> t" and "toDate r \<ge> f"
  shows "overlappingLeaves st sid f t \<noteq> []"
  using assms by (auto simp: overlappingLeaves_def filter_empty_conv)

lemma overlapping_ignores_rejected:
  "overlappingLeaves (filter (\<lambda>r. status r \<noteq> Rejected) st) sid f t = overlappingLeaves st sid f t"
  by (auto simp: overlappingLeaves_def intro: filter_cong)

lemma pre_save_dates_new:
  "pre_save_dates (new_LeaveRequest oid sid f t d) h =
     (if f < h then Some ''From date cannot be in the past''
      else if t < f then Some ''To date must be after or equal to from date'' else None)"
  by (simp add: pre_save_dates_def new_LeaveRequest_def)

lemma check_iff: "(p, m) \<in> set (check ok path msg) \<longleftrightarrow> \<not> ok \<and> p = path \<and> m = msg"
  by (simp add: check_def)

lemma trim_replicate:
  assumes "\<not> is_space c"
  shows "trim (replicate n c) = replicate n c"
proof -
  have "dropWhile is_space (replicate n c) = replicate n c"
    using assms by (cases n) simp_all
  then show ?thesis
    by (simp add: trim_def)
qed

text \<open>
  Without the flag the urgency hook accepts the document, whatever the reason field holds.
\<close>

lemma no_flag_no_reason:
  "d_isUrgent d = None \<or> d_isUrgent d = Some (JBool False) \<Longrightarrow>
   pre_save_urgent (new_LeaveRequest oid sid f t d) = None"
  by (auto simp: pre_save_urgent_def new_LeaveRequest_def)

text \<open>
  A draft that passes every check is stored as a new pending request.
\<close>

lemma apply_succeeds:
  assumes "role actor = Student" and "d_fromDate d = Some f" and "d_toDate d = Some t"
    and "apply_validators d = []" and "now \<le> f" and "f \<le> t" and "hookNow \<le> f"
    and "overlappingLeaves st (u_id actor) f t = []"
    and "d_isUrgent d = None \<or> d_isUrgent d = Some (JBool False)"
  shows "apply_handler actor d now hookNow st =
     (Inr (new_LeaveRequest (fresh_id st) (u_id actor) f t d),
      st @ [new_LeaveRequest (fresh_id st) (u_id actor) f t d])"
  using assms(4-8) no_flag_no_reason[OF assms(9)]
  by (simp add: apply_handler_student[OF assms(1-3)] save_new_def pre_save_def
        pre_save_dates_new)

text \<open>
  C3. For a student and a draft with the dates \<open>f\<close> and \<open>t\<close>: if the student has a pending or
  approved request with \<open>fromDate \<le> t\<close> and \<open>toDate \<ge> f\<close>, the submission fails with a
  ValidationError and the collection is unchanged. Rejected requests play no part in the
  overlap query, and when every request of the student that meets the interval is
  rejected, the submission is not refused for overlap.
\<close>

theorem overlap_blocks_submission:
  assumes "role actor = Student" and "d_fromDate d = Some f" and "d_toDate d = Some t"
  shows "((\<exists>r \<in> set st. student r = u_id actor \<and> (status r = Pending \<or> status r = Approved)
              \<and> fromDate r \<le> t \<and> toDate r \<ge> f) \<longrightarrow>
            (\<exists>e. apply_handler actor d now hookNow st = (Inl e, st) \<and> kind_of e = ValidationError))
       \<and> overlappingLeaves (filter (\<lambda>r. status r \<noteq> Rejected) st) (u_id actor) f t
            = overlappingLeaves st (u_id actor) f t
       \<and> ((\<forall>r \<in> set st. student r = u_id actor \<and> fromDate r \<le> t \<and> toDate r \<ge> f
               \<longrightarrow> status r = Rejected) \<longrightarrow>
            apply_handler actor d now hookNow st \<noteq>
              (Inl (Failure 400 (Error ''You have overlapping leave requests for these dates'')), st))"
proof (intro conjI impI)
  assume "\<exists>r \<in> set st. student r = u_id actor \<and> (status r = Pending \<or> status r = Approved)
              \<and> fromDate r \<le> t \<and> toDate r \<ge> f"
  then obtain r where "r \<in> set st" and "student r = u_id actor"
      and "status r = Pending \<or> status r = Approved" and "fromDate r \<le> t" and "toDate r \<ge> f"
    by blast
  then have ne: "overlappingLeaves st (u_id actor) f t \<noteq> []"
    by (rule overlapping_nonempty)
  show "\<exists>e. apply_handler actor d now hookNow st = (Inl e, st) \<and> kind_of e = ValidationError"
    unfolding apply_handler_student[OF assms]
    using ne kind_400_Errors kind_past kind_order kind_overlap by auto
next
  show "overlappingLeaves (filter (\<lambda>r. status r \<noteq> Rejected) st) (u_id actor) f t
            = overlappingLeaves st (u_id actor) f t"
    by (rule overlapping_ignores_rejected)
next
  assume "\<forall>r \<in> set st. student r = u_id actor \<and> fromDate r \<le> t \<and> toDate r \<ge> f
               \<longrightarrow> status r = Rejected"
  then have e: "overlappingLeaves st (u_id actor) f t = []"
    by (auto simp: overlappingLeaves_def filter_empty_conv)
  show "apply_handler actor d now hookNow st \<noteq>
              (Inl (Failure 400 (Error ''You have overlapping leave requests for these dates'')), st)"
    unfolding apply_handler_student[OF assms] using e
    by (auto split: sum.splits)
qed

text \<open>
  Days 11 to 13 against a pending request for days 10 to 12, and against the same request
  once rejected.
\<close>

theorem overlap_blocks_submission_witness:
  "(\<exists>e. apply_handler (ex_user 1 Student) (ex_draft 11 13) 5 5 [ex_request 1 1 10 12]
           = (Inl e, [ex_request 1 1 10 12]) \<and> kind_of e = ValidationError)
 \<and> apply_handler (ex_user 1 Student) (ex_draft 11 13) 5 5
       [decide Rejected (ex_request 1 1 10 12) 7 (Some ''exam week'') 4]
     \<noteq> (Inl (Failure 400 (Error ''You have overlapping leave requests for these dates'')),
         [decide Rejected (ex_request 1 1 10 12) 7 (Some ''exam week'') 4])"
proof -
  have s: "role (ex_user 1 Student) = Student"
    by (simp add: ex_user_def)
  have f: "d_fromDate (ex_draft 11 13) = Some 11" and t: "d_toDate (ex_draft 11 13) = Some 13"
    by (simp_all add: ex_draft_def)
  have a: "\<exists>r \<in> set [ex_request 1 1 10 12]. student r = u_id (ex_user 1 Student)
             \<and> (status r = Pending \<or> status r = Approved) \<and> fromDate r \<le> 13 \<and> toDate r \<ge> 11"
    by (simp add: ex_request_def ex_user_def)
  have b: "\<forall>r \<in> set [decide Rejected (ex_request 1 1 10 12) 7 (Some ''exam week'') 4].
             student r = u_id (ex_user 1 Student) \<and> fromDate r \<le> 13 \<and> toDate r \<ge> 11
               \<longrightarrow> status r = Rejected"
    by (simp add: decide_def)
  note T = overlap_blocks_submission[OF s f t]
  show ?thesis
    by (intro conjI T[THEN conjunct1, THEN mp, OF a]
          T[THEN conjunct2, THEN conjunct2, THEN mp, OF b])
qed

text \<open>
  C4, as the handler has it. When a field validator fails, the answer is the list of all
  failing field validators: it has an entry for each of the eleven chains that fails, the
  urgency flag and the length of the urgency reason among them, and no entry for any other
  field. The rules on dates and overlap are checked only when no field validator fails,
  one after the other, and the answer names the first that is violated.
\<close>

theorem validation_reporting:
  assumes "role actor = Student"
  shows "(apply_validators d \<noteq> [] \<longrightarrow>
            apply_handler actor d now hookNow st
              = (Inl (Failure 400 (Errors (apply_validators d))), st))
       \<and> (d_fromDate d = None \<longrightarrow>
            (''fromDate'', ''Valid from date is required'') \<in> set (apply_validators d))
       \<and> (d_toDate d = None \<longrightarrow>
            (''toDate'', ''Valid to date is required'') \<in> set (apply_validators d))
       \<and> (\<not> isLength 10 500 (trim (d_reason d)) \<longrightarrow>
            (''reason'', ''Reason must be between 10 and 500 characters'')
              \<in> set (apply_validators d))
       \<and> (\<not> List.member [''day'', ''home''] (d_type d) \<longrightarrow>
            (''type'', ''Valid leave type is required'') \<in> set (apply_validators d))
       \<and> (\<not> isLength 10 300 (trim (cd_address (d_contactDetails d))) \<longrightarrow>
            (''contactDetails.address'', ''Address must be between 10 and 300 characters'')
              \<in> set (apply_validators d))
       \<and> (\<not> matches_phone (cd_phone (d_contactDetails d)) \<longrightarrow>
            (''contactDetails.phone'', ''Valid phone number is required'')
              \<in> set (apply_validators d))
       \<and> (\<not> isLength 2 100 (trim (ec_name (cd_emergencyContact (d_contactDetails d)))) \<longrightarrow>
            (''contactDetails.emergencyContact.name'', ''Emergency contact name is required'')
              \<in> set (apply_validators d))
       \<and> (\<not> isLength 2 50 (trim (ec_relationship (cd_emergencyContact (d_contactDetails d))))
            \<longrightarrow> (''contactDetails.emergencyContact.relationship'',
                   ''Emergency contact relationship is required'') \<in> set (apply_validators d))
       \<and> (\<not> matches_phone (ec_phone (cd_emergencyContact (d_contactDetails d))) \<longrightarrow>
            (''contactDetails.emergencyContact.phone'',
             ''Valid emergency contact phone is required'') \<in> set (apply_validators d))
       \<and> ((\<exists>v. d_isUrgent d = Some v \<and> \<not> isBoolean v) \<longrightarrow>
            (''isUrgent'', ''Invalid value'') \<in> set (apply_validators d))
       \<and> ((\<exists>s. d_urgentReason d = Some s \<and> \<not> isLength 0 200 (trim s)) \<longrightarrow>
            (''urgentReason'', ''Invalid value'') \<in> set (apply_validators d))
       \<and> ((p, m) \<in> set (apply_validators d) \<longrightarrow>
            List.member [''fromDate'', ''toDate'', ''reason'', ''type'', ''contactDetails.address'',
              ''contactDetails.phone'', ''contactDetails.emergencyContact.name'',
              ''contactDetails.emergencyContact.relationship'',
              ''contactDetails.emergencyContact.phone'', ''isUrgent'', ''urgentReason''] p)
       \<and> (apply_validators d = [] \<and> d_fromDate d = Some f \<and> d_toDate d = Some t \<longrightarrow>
            (f < now \<longrightarrow> apply_handler actor d now hookNow st
               = (Inl (Failure 400 (Error ''From date cannot be in the past'')), st))
          \<and> (now \<le> f \<and> t < f \<longrightarrow> apply_handler actor d now hookNow st
               = (Inl (Failure 400 (Error ''To date must be after or equal to from date'')), st))
          \<and> (now \<le> f \<and> f \<le> t \<and> overlappingLeaves st (u_id actor) f t \<noteq> [] \<longrightarrow>
               apply_handler actor d now hookNow st
               = (Inl (Failure 400
                    (Error ''You have overlapping leave requests for these dates'')), st)))"
proof -
  have a: "apply_validators d \<noteq> [] \<longrightarrow>
            apply_handler actor d now hookNow st
              = (Inl (Failure 400 (Errors (apply_validators d))), st)"
    using assms by (simp add: apply_handler_def requireStudent_def requireRole_def)
  have b: "apply_validators d = [] \<and> d_fromDate d = Some f \<and> d_toDate d = Some t \<longrightarrow>
            (f < now \<longrightarrow> apply_handler actor d now hookNow st
               = (Inl (Failure 400 (Error ''From date cannot be in the past'')), st))
          \<and> (now \<le> f \<and> t < f \<longrightarrow> apply_handler actor d now hookNow st
               = (Inl (Failure 400 (Error ''To date must be after or equal to from date'')), st))
          \<and> (now \<le> f \<and> f \<le> t \<and> overlappingLeaves st (u_id actor) f t \<noteq> [] \<longrightarrow>
               apply_handler actor d now hookNow st
               = (Inl (Failure 400
                    (Error ''You have overlapping leave requests for these dates'')), st))"
    using assms by (auto simp: apply_handler_student)
  have c: "d_fromDate d = None \<longrightarrow>
            (''fromDate'', ''Valid from date is required'') \<in> set (apply_validators d)"
      "d_toDate d = None \<longrightarrow>
            (''toDate'', ''Valid to date is required'') \<in> set (apply_validators d)"
      "\<not> isLength 10 500 (trim (d_reason d)) \<longrightarrow>
            (''reason'', ''Reason must be between 10 and 500 characters'')
              \<in> set (apply_validators d)"
      "\<not> List.member [''day'', ''home''] (d_type d) \<longrightarrow>
            (''type'', ''Valid leave type is required'') \<in> set (apply_validators d)"
      "\<not> isLength 10 300 (trim (cd_address (d_contactDetails d))) \<longrightarrow>
            (''contactDetails.address'', ''Address must be between 10 and 300 characters'')
              \<in> set (apply_validators d)"
      "\<not> matches_phone (cd_phone (d_contactDetails d)) \<longrightarrow>
            (''contactDetails.phone'', ''Valid phone number is required'')
              \<in> set (apply_validators d)"
      "\<not> isLength 2 100 (trim (ec_name (cd_emergencyContact (d_contactDetails d)))) \<longrightarrow>
            (''contactDetails.emergencyContact.name'', ''Emergency contact name is required'')
              \<in> set (apply_validators d)"
      "\<not> isLength 2 50 (trim (ec_relationship (cd_emergencyContact (d_contactDetails d))))
            \<longrightarrow> (''contactDetails.emergencyContact.relationship'',
                   ''Emergency contact relationship is required'') \<in> set (apply_validators d)"
      "\<not> matches_phone (ec_phone (cd_emergencyContact (d_contactDetails d))) \<longrightarrow>
            (''contactDetails.emergencyContact.phone'',
             ''Valid emergency contact phone is required'') \<in> set (apply_validators d)"
      "(\<exists>v. d_isUrgent d = Some v \<and> \<not> isBoolean v) \<longrightarrow>
            (''isUrgent'', ''Invalid value'') \<in> set (apply_validators d)"
      "(\<exists>s. d_urgentReason d = Some s \<and> \<not> isLength 0 200 (trim s)) \<longrightarrow>
            (''urgentReason'', ''Invalid value'') \<in> set (apply_validators d)"
    by (auto simp add: apply_validators_def check_iff)
  have e: "(p, m) \<in> set (apply_validators d) \<longrightarrow>
            List.member [''fromDate'', ''toDate'', ''reason'', ''type'', ''contactDetails.address'',
              ''contactDetails.phone'', ''contactDetails.emergencyContact.name'',
              ''contactDetails.emergencyContact.relationship'',
              ''contactDetails.emergencyContact.phone'', ''isUrgent'', ''urgentReason''] p"
    by (simp add: apply_validators_def check_iff)
  show ?thesis
    by (intro conjI a b c e)
qed

text \<open>
  Four failing fields, the urgency flag and an urgency reason of 201 characters among
  them, are all listed; a draft that starts in the past and ends before it starts is
  answered with the first date rule only.
\<close>

theorem validation_reporting_witness:
  "apply_handler (ex_user 2 Student)
     ((ex_draft 10 12)\<lparr>d_reason := ''short'',
        d_contactDetails := ex_contact\<lparr>cd_phone := ''123''\<rparr>,
        d_isUrgent := Some (JString ''maybe''),
        d_urgentReason := Some (replicate 201 (CHR ''x''))\<rparr>) 5 5 []
     = (Inl (Failure 400 (Errors
          [(''reason'', ''Reason must be between 10 and 500 characters''),
           (''contactDetails.phone'', ''Valid phone number is required''),
           (''isUrgent'', ''Invalid value''),
           (''urgentReason'', ''Invalid value'')])), [])
 \<and> apply_handler (ex_user 2 Student) (ex_draft 3 2) 5 5 []
     = (Inl (Failure 400 (Error ''From date cannot be in the past'')), [])"
proof -
  let ?d = "(ex_draft 10 12)\<lparr>d_reason := ''short'',
        d_contactDetails := ex_contact\<lparr>cd_phone := ''123''\<rparr>,
        d_isUrgent := Some (JString ''maybe''),
        d_urgentReason := Some (replicate 201 (CHR ''x''))\<rparr>"
  have s: "role (ex_user 2 Student) = Student"
    by (simp add: ex_user_def)
  have x: "\<not> is_space (CHR ''x'')"
    by (simp add: is_space_def)
  have v: "apply_validators ?d =
          [(''reason'', ''Reason must be between 10 and 500 characters''),
           (''contactDetails.phone'', ''Valid phone number is required''),
           (''isUrgent'', ''Invalid value''),
           (''urgentReason'', ''Invalid value'')]"
    by (simp add: apply_validators_def ex_draft_def ex_contact_def check_def isLength_def
          trim_replicate[OF x] matches_phone_def is_digit_def)
       (simp add: trim_def is_space_def)
  have ne: "apply_validators ?d \<noteq> []"
    by (simp only: v) simp
  have w: "apply_validators (ex_draft 3 2) = [] \<and> d_fromDate (ex_draft 3 2) = Some 3
            \<and> d_toDate (ex_draft 3 2) = Some 2"
    by (simp add: ex_draft_valid) (simp add: ex_draft_def)
  have o: "(3::int) < 5"
    by simp
  note T = validation_reporting[OF s]
  have a: "apply_handler (ex_user 2 Student) ?d 5 5 []
             = (Inl (Failure 400 (Errors (apply_validators ?d))), [])"
    by (rule T[THEN conjunct1, THEN mp, OF ne])
  have b: "apply_handler (ex_user 2 Student) (ex_draft 3 2) 5 5 []
     = (Inl (Failure 400 (Error ''From date cannot be in the past'')), [])"
    by (rule T[THEN conjunct2, THEN conjunct2, THEN conjunct2, THEN conjunct2, THEN conjunct2,
          THEN conjunct2, THEN conjunct2, THEN conjunct2, THEN conjunct2, THEN conjunct2,
          THEN conjunct2, THEN conjunct2, THEN conjunct2,
          THEN mp, OF w, THEN conjunct1, THEN mp, OF o])
  show ?thesis
    using a b by (simp only: v)
qed

text \<open>
  A draft that starts in the past and has a malformed phone number is answered with the
  phone number only; a draft that starts in the past and overlaps a pending request is
  answered with the date only.
\<close>

theorem fail_fast_counterexample:
  "(3::int) < 5 \<and> \<not> matches_phone ''123''
 \<and> apply_handler (ex_user 1 Student)
      ((ex_draft 3 12)\<lparr>d_contactDetails := ex_contact\<lparr>cd_phone := ''123''\<rparr>\<rparr>) 5 5 []
     = (Inl (Failure 400 (Errors
          [(''contactDetails.phone'', ''Valid phone number is required'')])), [])
 \<and> (11::int) < 20
 \<and> overlappingLeaves [ex_request 1 1 10 12] 1 11 13 = [ex_request 1 1 10 12]
 \<and> apply_handler (ex_user 1 Student) (ex_draft 11 13) 20 20 [ex_request 1 1 10 12]
     = (Inl (Failure 400 (Error ''From date cannot be in the past'')), [ex_request 1 1 10 12])"
proof -
  let ?d = "(ex_draft 3 12)\<lparr>d_contactDetails := ex_contact\<lparr>cd_phone := ''123''\<rparr>\<rparr>"
  have s: "role (ex_user 1 Student) = Student"
    by (simp add: ex_user_def)
  have v: "apply_validators ?d = [(''contactDetails.phone'', ''Valid phone number is required'')]"
    by (simp add: apply_validators_def ex_draft_def ex_contact_def check_def isLength_def trim_def
        is_space_def matches_phone_def is_digit_def)
  have a: "apply_handler (ex_user 1 Student) ?d 5 5 []
     = (Inl (Failure 400 (Errors
          [(''contactDetails.phone'', ''Valid phone number is required'')])), [])"
    by (simp add: apply_handler_def requireStudent_def requireRole_def ex_student(1) v)
  have b: "apply_handler (ex_user 1 Student) (ex_draft 11 13) 20 20 [ex_request 1 1 10 12]
     = (Inl (Failure 400 (Error ''From date cannot be in the past'')), [ex_request 1 1 10 12])"
    by (simp add: apply_handler_student[OF ex_student(1) ex_draft_dates] ex_draft_valid)
  have c: "overlappingLeaves [ex_request 1 1 10 12] 1 11 13 = [ex_request 1 1 10 12]"
    by (simp add: overlappingLeaves_def ex_request_def)
  have d: "\<not> matches_phone ''123''"
    by (simp add: matches_phone_def)
  have e: "(3::int) < 5" "(11::int) < 20"
    by simp_all
  show ?thesis
    by (intro conjI a b c d e)
qed

text \<open>
  A draft that starts before the clock read of the handler, or ends before it starts, is
  refused with a ValidationError and nothing is stored; when the field validators pass,
  the answer is one of the two date errors exactly in that case.
\<close>

lemma date_errors_iff:
  assumes "role actor = Student" and "d_fromDate d = Some f" and "d_toDate d = Some t"
  shows "(f < now \<or> t < f \<longrightarrow>
            (\<exists>e. apply_handler actor d now hookNow st = (Inl e, st) \<and> kind_of e = ValidationError))
       \<and> (apply_validators d = [] \<longrightarrow>
            ((apply_handler actor d now hookNow st
                = (Inl (Failure 400 (Error ''From date cannot be in the past'')), st)
              \<or> apply_handler actor d now hookNow st
                = (Inl (Failure 400 (Error ''To date must be after or equal to from date'')), st))
             \<longleftrightarrow> (f < now \<or> t < f)))"
proof (intro conjI impI)
  assume "f < now \<or> t < f"
  then show "\<exists>e. apply_handler actor d now hookNow st = (Inl e, st) \<and> kind_of e = ValidationError"
    unfolding apply_handler_student[OF assms]
    using kind_400_Errors kind_past kind_order by auto
next
  assume "apply_validators d = []"
  then show "(apply_handler actor d now hookNow st
                = (Inl (Failure 400 (Error ''From date cannot be in the past'')), st)
              \<or> apply_handler actor d now hookNow st
                = (Inl (Failure 400 (Error ''To date must be after or equal to from date'')), st))
             \<longleftrightarrow> (f < now \<or> t < f)"
    unfolding apply_handler_student[OF assms]
    by (auto split: sum.splits)
qed

text \<open>
  The save checks the first day again, against a clock read of its own. A draft that the
  handler has accepted is refused there when the clock has passed the first day in
  between, and the handler turns that into status 500.
\<close>

lemma date_hook_refuses:
  assumes "role actor = Student" and "d_fromDate d = Some f" and "d_toDate d = Some t"
    and "apply_validators d = []" and "now \<le> f" and "f \<le> t"
    and "overlappingLeaves st (u_id actor) f t = []" and "f < hookNow"
  shows "apply_handler actor d now hookNow st
           = (Inl (Failure 500 (Error ''Failed to submit leave request'')), st)"
  using assms(4-8)
  by (simp add: apply_handler_student[OF assms(1-3)] save_new_def pre_save_def
        pre_save_dates_new)

text \<open>
  C6 at a draft whose first day is the instant of the handler's clock read: the field
  validators pass, the first day is not before that instant and the last day is not before
  the first, yet the handler answers with status 500, because the save reads the clock one
  unit later. Nothing is stored. With the same clock value in the save, the draft is
  stored.
\<close>

theorem good_range_refused_by_save:
  "apply_validators (ex_draft 10 12) = []
 \<and> \<not> ((10::int) < 10 \<or> (12::int) < 10)
 \<and> apply_handler (ex_user 2 Student) (ex_draft 10 12) 10 11 []
     = (Inl (Failure 500 (Error ''Failed to submit leave request'')), [])
 \<and> kind_of (Failure 500 (Error ''Failed to submit leave request'')) = InternalFailure
 \<and> apply_handler (ex_user 2 Student) (ex_draft 10 12) 10 10 []
     = (Inr (new_LeaveRequest 1 2 10 12 (ex_draft 10 12)),
        [new_LeaveRequest 1 2 10 12 (ex_draft 10 12)])"
proof -
  have o: "overlappingLeaves [] (u_id (ex_user 2 Student)) 10 12 = []"
    by (simp add: overlappingLeaves_def)
  have r: "\<not> ((10::int) < 10 \<or> (12::int) < 10)"
    by simp
  have a: "apply_handler (ex_user 2 Student) (ex_draft 10 12) 10 11 []
     = (Inl (Failure 500 (Error ''Failed to submit leave request'')), [])"
    by (rule date_hook_refuses[OF ex_student(1) ex_draft_dates ex_draft_valid _ _ o]) simp_all
  have k: "kind_of (Failure 500 (Error ''Failed to submit leave request'')) = InternalFailure"
    by simp
  have n: "d_isUrgent (ex_draft 10 12) = None \<or> d_isUrgent (ex_draft 10 12) = Some (JBool False)"
    by (simp add: ex_draft_def)
  have b: "apply_handler (ex_user 2 Student) (ex_draft 10 12) 10 10 []
     = (Inr (new_LeaveRequest (fresh_id []) (u_id (ex_user 2 Student)) 10 12 (ex_draft 10 12)),
        [] @ [new_LeaveRequest (fresh_id []) (u_id (ex_user 2 Student)) 10 12 (ex_draft 10 12)])"
    by (rule apply_succeeds[OF ex_student(1) ex_draft_dates ex_draft_valid _ _ _ o n]) simp_all
  have b': "apply_handler (ex_user 2 Student) (ex_draft 10 12) 10 10 []
     = (Inr (new_LeaveRequest 1 2 10 12 (ex_draft 10 12)),
        [new_LeaveRequest 1 2 10 12 (ex_draft 10 12)])"
    using b by (simp add: fresh_id_def ex_user_def)
  show ?thesis
    by (intro conjI ex_draft_valid r a k b')
qed

text \<open>
  The route has no validator for the reason of an urgent request; the hook of the save
  refuses the document, and the handler turns that into status 500.
\<close>

lemma apply_urgent_without_reason:
  assumes "role actor = Student" and "d_fromDate d = Some f" and "d_toDate d = Some t"
    and "apply_validators d = []" and "now \<le> f" and "f \<le> t"
    and "overlappingLeaves st (u_id actor) f t = []"
    and "d_isUrgent d = Some (JBool True)"
    and "d_urgentReason d = None \<or> (\<exists>s. d_urgentReason d = Some s \<and> trim s = [])"
  shows "apply_handler actor d now hookNow st
           = (Inl (Failure 500 (Error ''Failed to submit leave request'')), st)"
proof -
  have "pre_save_urgent (new_LeaveRequest oid sid f t d)
          = Some ''Urgent reason is required when marking as urgent''" for oid sid
    using assms(8,9) by (auto simp: pre_save_urgent_def new_LeaveRequest_def)
  then have "save_new (new_LeaveRequest oid sid f t d) hookNow st
          = Inl (the (pre_save (new_LeaveRequest oid sid f t d) hookNow))" for oid sid
    by (simp add: save_new_def pre_save_def split: option.splits)
  then show ?thesis
    using assms(4-7) by (simp add: apply_handler_student[OF assms(1-3)])
qed

text \<open>
  C7 at an urgent draft without a reason: the field validators pass, and the handler
  answers with status 500, an internal failure and not a ValidationError. Nothing is
  stored. The same draft without the flag is stored.
\<close>

theorem urgent_without_reason_fails:
  "apply_validators ((ex_draft 10 12)\<lparr>d_isUrgent := Some (JBool True)\<rparr>) = []
 \<and> d_urgentReason ((ex_draft 10 12)\<lparr>d_isUrgent := Some (JBool True)\<rparr>) = None
 \<and> apply_handler (ex_user 2 Student) ((ex_draft 10 12)\<lparr>d_isUrgent := Some (JBool True)\<rparr>) 5 5 []
     = (Inl (Failure 500 (Error ''Failed to submit leave request'')), [])
 \<and> kind_of (Failure 500 (Error ''Failed to submit leave request'')) = InternalFailure
 \<and> apply_handler (ex_user 2 Student) (ex_draft 10 12) 5 5 []
     = (Inr (new_LeaveRequest 1 2 10 12 (ex_draft 10 12)),
        [new_LeaveRequest 1 2 10 12 (ex_draft 10 12)])"
proof -
  let ?d = "(ex_draft 10 12)\<lparr>d_isUrgent := Some (JBool True)\<rparr>"
  have v: "apply_validators ?d = []"
    using ex_draft_valid[of 10 12] by (simp add: apply_validators_def check_def)
  have dts: "d_fromDate ?d = Some 10" "d_toDate ?d = Some 12"
    by (simp_all add: ex_draft_def)
  have u: "d_isUrgent ?d = Some (JBool True)" and n: "d_urgentReason ?d = None"
    by (simp_all add: ex_draft_def)
  have o: "overlappingLeaves [] (u_id (ex_user 2 Student)) 10 12 = []"
    by (simp add: overlappingLeaves_def)
  have a: "apply_handler (ex_user 2 Student) ?d 5 5 []
     = (Inl (Failure 500 (Error ''Failed to submit leave request'')), [])"
    by (rule apply_urgent_without_reason[OF ex_student(1) dts v _ _ o u]) (simp_all add: n)
  have k: "kind_of (Failure 500 (Error ''Failed to submit leave request'')) = InternalFailure"
    by simp
  have b: "apply_handler (ex_user 2 Student) (ex_draft 10 12) 5 5 []
     = (Inr (new_LeaveRequest 1 2 10 12 (ex_draft 10 12)),
        [new_LeaveRequest 1 2 10 12 (ex_draft 10 12)])"
    by (simp add: apply_handler_student[OF ex_student(1) ex_draft_dates] ex_draft_valid
          overlappingLeaves_def fresh_id_def save_new_def pre_save_def pre_save_dates_new
          ex_student)
       (simp add: pre_save_urgent_def new_LeaveRequest_def ex_draft_def fresh_id_def ex_user_def)
  show ?thesis
    by (intro conjI v n a k b)
qed

section \<open>Cancellation and lookup\<close>

text \<open>
  C8. For a student and a stored request: cancel fails with Forbidden when the request
  belongs to another student, fails with InvalidTransition when it is the student's own and
  not pending, and otherwise succeeds and removes the document and no other. It succeeds
  exactly when the student owns the request and the request is pending.
\<close>

theorem cancel_by_student:
  assumes "role actor = Student" and "findById st i = Some r" and "distinct (map lr_id st)"
  shows "(student r \<noteq> u_id actor \<longrightarrow>
            (\<exists>f. cancel_handler actor i st = (Inl f, st) \<and> kind_of f = Forbidden))
       \<and> (student r = u_id actor \<and> status r \<noteq> Pending \<longrightarrow>
            (\<exists>f. cancel_handler actor i st = (Inl f, st) \<and> kind_of f = InvalidTransition))
       \<and> (student r = u_id actor \<and> status r = Pending \<longrightarrow>
            (\<exists>m st'. cancel_handler actor i st = (Inr m, st') \<and> findById st' i = None
                \<and> (\<forall>j. j \<noteq> i \<longrightarrow> findById st' j = findById st j)))
       \<and> ((\<exists>m st'. cancel_handler actor i st = (Inr m, st'))
            \<longleftrightarrow> student r = u_id actor \<and> status r = Pending)"
  using assms
  by (auto simp: cancel_handler_def requireStudent_def requireRole_def not_pending_messages_def
        findById_delete_same findById_delete_other)

text \<open>
  Another student's request, an approved own request, and a pending own request.
\<close>

theorem cancel_by_student_witness:
  "(\<exists>f. cancel_handler (ex_user 2 Student) 1 [ex_request 1 1 10 12]
           = (Inl f, [ex_request 1 1 10 12]) \<and> kind_of f = Forbidden)
 \<and> (\<exists>f. cancel_handler (ex_user 1 Student) 1 [(ex_request 1 1 10 12)\<lparr>status := Approved\<rparr>]
           = (Inl f, [(ex_request 1 1 10 12)\<lparr>status := Approved\<rparr>])
         \<and> kind_of f = InvalidTransition)
 \<and> (\<exists>m st'. cancel_handler (ex_user 1 Student) 1 [ex_request 1 1 10 12] = (Inr m, st')
         \<and> findById st' 1 = None)"
proof -
  have s1: "role (ex_user 1 Student) = Student" and s2: "role (ex_user 2 Student) = Student"
    by (simp_all add: ex_user_def)
  have f1: "findById [ex_request 1 1 10 12] 1 = Some (ex_request 1 1 10 12)"
    and f2: "findById [(ex_request 1 1 10 12)\<lparr>status := Approved\<rparr>] 1
               = Some ((ex_request 1 1 10 12)\<lparr>status := Approved\<rparr>)"
    by (simp_all add: ex_request_def)
  have d1: "distinct (map lr_id [ex_request 1 1 10 12])"
    and d2: "distinct (map lr_id [(ex_request 1 1 10 12)\<lparr>status := Approved\<rparr>])"
    by simp_all
  have o: "student (ex_request 1 1 10 12) \<noteq> u_id (ex_user 2 Student)"
    "student (ex_request 1 1 10 12) = u_id (ex_user 1 Student)"
    "status (ex_request 1 1 10 12) = Pending"
    "student ((ex_request 1 1 10 12)\<lparr>status := Approved\<rparr>) = u_id (ex_user 1 Student)"
    "status ((ex_request 1 1 10 12)\<lparr>status := Approved\<rparr>) \<noteq> Pending"
    by (simp_all add: ex_user_def ex_request_def)
  from cancel_by_student[OF s2 f1 d1] cancel_by_student[OF s1 f2 d2]
    cancel_by_student[OF s1 f1 d1] o
  show ?thesis by blast
qed

text \<open>
  C10, as the handlers have it. For an id that matches no stored document, view fails with
  NotFound for every actor, and cancel fails with NotFound for every student. Cancel has
  the role check in front of the lookup: an actor who is not a student gets Forbidden,
  whether the id exists or not.
\<close>

theorem lookup_before_ownership:
  "(findById st i = None \<longrightarrow>
      (\<exists>f. view_handler actor i st = Inl f \<and> kind_of f = NotFound))
 \<and> (findById st i = None \<and> role actor = Student \<longrightarrow>
      (\<exists>f. cancel_handler actor i st = (Inl f, st) \<and> kind_of f = NotFound))
 \<and> (role actor \<noteq> Student \<longrightarrow>
      (\<exists>f. cancel_handler actor i st = (Inl f, st) \<and> kind_of f = Forbidden))"
  by (auto simp: view_handler_def cancel_handler_def requireStudent_def requireRole_def)

text \<open>
  An unknown id seen by a student, and a warden who cancels.
\<close>

theorem lookup_before_ownership_witness:
  "(\<exists>f. view_handler (ex_user 2 Student) 9 [ex_request 3 4 10 12] = Inl f \<and> kind_of f = NotFound)
 \<and> (\<exists>f. cancel_handler (ex_user 2 Student) 9 [ex_request 3 4 10 12]
           = (Inl f, [ex_request 3 4 10 12]) \<and> kind_of f = NotFound)
 \<and> (\<exists>f. cancel_handler (ex_user 7 Warden) 3 [ex_request 3 4 10 12]
           = (Inl f, [ex_request 3 4 10 12]) \<and> kind_of f = Forbidden)"
proof -
  have n: "findById [ex_request 3 4 10 12] 9 = None"
    by (simp add: ex_request_def)
  have r: "role (ex_user 2 Student) = Student" and w: "role (ex_user 7 Warden) \<noteq> Student"
    by (simp_all add: ex_user_def)
  have nr: "findById [ex_request 3 4 10 12] 9 = None \<and> role (ex_user 2 Student) = Student"
    using n r by simp
  show ?thesis
    by (intro conjI lookup_before_ownership[THEN conjunct1, THEN mp, OF n]
          lookup_before_ownership[THEN conjunct2, THEN conjunct1, THEN mp, OF nr]
          lookup_before_ownership[THEN conjunct2, THEN conjunct2, THEN mp, OF w])
qed

text \<open>
  A warden cancels with an id that matches no stored document and gets Forbidden.
\<close>

theorem cancel_role_check_counterexample:
  "findById [ex_request 1 1 10 12] 9 = None
 \<and> cancel_handler (ex_user 7 Warden) 9 [ex_request 1 1 10 12]
     = (Inl (Failure 403 (Error ''Access denied. Insufficient permissions.'')),
        [ex_request 1 1 10 12])
 \<and> kind_of (Failure 403 (Error ''Access denied. Insufficient permissions.'')) = Forbidden
 \<and> kind_of (Failure 403 (Error ''Access denied. Insufficient permissions.'')) \<noteq> NotFound"
  by (simp add: cancel_handler_def requireStudent_def requireRole_def ex_user_def ex_request_def)

section \<open>Profile update\<close>









end
